theory Spec2Isabelle
  imports Complex_Main "HOL-Library.Multiset"
begin

section \<open>Values of the platform\<close>

text \<open>
  A JavaScript number is a finite double, \<^verbatim>\<open>NaN\<close> or one of the two infinities.
  Finite doubles are taken as the real numbers they denote (rounding is not modelled and
  the two zeros are one value, as \<^verbatim>\<open>===\<close> has it); the three special values are kept
  apart because \<^verbatim>\<open>typeof\<close> calls them numbers while \<^verbatim>\<open>JSON.stringify\<close> writes them
  as \<^verbatim>\<open>null\<close>.
\<close>

datatype number = Fin real | NaN | PosInfinity | NegInfinity

text \<open>
  What \<^verbatim>\<open>JSON.parse\<close> returns: the argument \<^verbatim>\<open>data: any\<close> of the validator. An object
  is the list of its own properties; reading a property takes the first entry under the
  key. \<^verbatim>\<open>undefined\<close> is not a JSON value: a property read returns an option, and
  \<open>None\<close> is \<^verbatim>\<open>undefined\<close>.
\<close>

datatype json =
    JNull
  | JBool bool
  | JNum number
  | JStr string
  | JArr "json list"
  | JObj "(string \<times> json) list"

text \<open>
  \<^verbatim>\<open>x.k\<close> on a value that is neither \<^verbatim>\<open>null\<close> nor \<^verbatim>\<open>undefined\<close>. None of the keys the
  program reads (\<^verbatim>\<open>id\<close>, \<^verbatim>\<open>title\<close>, ..., \<^verbatim>\<open>options\<close>) is a property of the prototypes
  of strings, numbers, booleans or arrays, so on those the read gives \<^verbatim>\<open>undefined\<close>.
\<close>

fun get :: "json \<Rightarrow> string \<Rightarrow> json option" where
  "get (JObj ps) k = map_of ps k"
| "get _ k = None"

text \<open>JavaScript's \<^verbatim>\<open>ToBoolean\<close>, as \<^verbatim>\<open>loc && ...\<close> applies it.\<close>

fun truthy :: "json \<Rightarrow> bool" where
  "truthy JNull = False"
| "truthy (JBool b) = b"
| "truthy (JNum n) = (n \<noteq> Fin 0 \<and> n \<noteq> NaN)"
| "truthy (JStr s) = (s \<noteq> [])"
| "truthy (JArr _) = True"
| "truthy (JObj _) = True"

text \<open>\<^verbatim>\<open>typeof v === 'string'\<close>, \<^verbatim>\<open>'number'\<close>, \<^verbatim>\<open>'boolean'\<close> and \<^verbatim>\<open>Array.isArray(v)\<close>.\<close>

fun typeof_string :: "json option \<Rightarrow> bool" where
  "typeof_string (Some (JStr _)) = True"
| "typeof_string _ = False"

fun typeof_number :: "json option \<Rightarrow> bool" where
  "typeof_number (Some (JNum _)) = True"
| "typeof_number _ = False"

fun typeof_boolean :: "json option \<Rightarrow> bool" where
  "typeof_boolean (Some (JBool _)) = True"
| "typeof_boolean _ = False"

fun isArray :: "json option \<Rightarrow> bool" where
  "isArray (Some (JArr _)) = True"
| "isArray _ = False"

text \<open>\<^verbatim>\<open>a[i]\<close> and \<^verbatim>\<open>a.length\<close> on a value already known to be an array.\<close>

fun elements :: "json option \<Rightarrow> json list" where
  "elements (Some (JArr xs)) = xs"
| "elements _ = []"

definition item :: "json list \<Rightarrow> nat \<Rightarrow> json option" where
  "item xs i = (if i < length xs then Some (xs ! i) else None)"

section \<open>The data model (types.ts)\<close>

datatype QuestionType = short_answer | true_false | multiple_choice

record Question =
  id_q :: string
  text_q :: string
  type_q :: QuestionType
  options_q :: "string list option"
  answer_q :: string

type_synonym LatLngTuple = "number \<times> number"

record Location =
  id_loc :: string
  title :: string
  country :: string
  description :: string
  image_loc :: string
  video :: "string option"
  audio :: "string option"
  coordinates :: LatLngTuple
  questions :: "Question list option"
  block_navigation :: "bool option"

section \<open>The schema validator (validateLocationsData)\<close>

text \<open>
  \<^verbatim>\<open>(loc.video === null || typeof loc.video === 'string')\<close>: the check of lines 24 and 25.
\<close>

fun null_or_string :: "json option \<Rightarrow> bool" where
  "null_or_string (Some JNull) = True"
| "null_or_string (Some (JStr _)) = True"
| "null_or_string _ = False"

text \<open>
  \<^verbatim>\<open>['short_answer', 'true_false', 'multiple_choice'].includes(q.type)\<close>.
\<close>

fun includes_type :: "json option \<Rightarrow> bool" where
  "includes_type (Some (JStr t)) =
     (t \<in> set [''short_answer'', ''true_false'', ''multiple_choice''])"
| "includes_type _ = False"

text \<open>The callback of \<^verbatim>\<open>loc.questions.every\<close> (lines 32 to 39).\<close>

definition isQuestion :: "json \<Rightarrow> bool" where
  "isQuestion q \<longleftrightarrow>
     truthy q \<and>
     typeof_string (get q ''id'') \<and>
     typeof_string (get q ''text'') \<and>
     includes_type (get q ''type'') \<and>
     typeof_string (get q ''answer'') \<and>
     (get q ''options'' = None \<or>
      (isArray (get q ''options'') \<and>
       list_all (\<lambda>opt. typeof_string (Some opt)) (elements (get q ''options''))))"

text \<open>The callback of \<^verbatim>\<open>data.filter\<close> (lines 17 to 41), conjunct by conjunct.\<close>

definition isLocation :: "json \<Rightarrow> bool" where
  "isLocation loc \<longleftrightarrow>
     truthy loc \<and>
     typeof_string (get loc ''id'') \<and>
     typeof_string (get loc ''title'') \<and>
     typeof_string (get loc ''country'') \<and>
     typeof_string (get loc ''description'') \<and>
     typeof_string (get loc ''image'') \<and>
     null_or_string (get loc ''video'') \<and>
     null_or_string (get loc ''audio'') \<and>
     isArray (get loc ''coordinates'') \<and>
     length (elements (get loc ''coordinates'')) = 2 \<and>
     typeof_number (item (elements (get loc ''coordinates'')) 0) \<and>
     typeof_number (item (elements (get loc ''coordinates'')) 1) \<and>
     (get loc ''questions'' = None \<or>
      (isArray (get loc ''questions'') \<and>
       list_all isQuestion (elements (get loc ''questions'')))) \<and>
     (get loc ''block_navigation'' = None \<or> typeof_boolean (get loc ''block_navigation''))"

text \<open>
  The type guard \<^verbatim>\<open>loc is Location\<close>: an accepted value seen at the type \<open>Location\<close>.
  The readers below are total; on a value the guard accepted they never take their
  default. Properties outside the interface are not visible at this type.
\<close>

fun the_string :: "json option \<Rightarrow> string" where
  "the_string (Some (JStr s)) = s"
| "the_string _ = []"

fun the_nullable_string :: "json option \<Rightarrow> string option" where
  "the_nullable_string (Some (JStr s)) = Some s"
| "the_nullable_string _ = None"

fun the_number :: "json option \<Rightarrow> number" where
  "the_number (Some (JNum n)) = n"
| "the_number _ = NaN"

fun the_boolean :: "json option \<Rightarrow> bool" where
  "the_boolean (Some (JBool b)) = b"
| "the_boolean _ = False"

fun the_type :: "json option \<Rightarrow> QuestionType" where
  "the_type (Some (JStr t)) =
     (if t = ''true_false'' then true_false
      else if t = ''multiple_choice'' then multiple_choice
      else short_answer)"
| "the_type _ = short_answer"

definition asQuestion :: "json \<Rightarrow> Question" where
  "asQuestion q =
     \<lparr> id_q = the_string (get q ''id''),
       text_q = the_string (get q ''text''),
       type_q = the_type (get q ''type''),
       options_q = (case get q ''options'' of
                      None \<Rightarrow> None
                    | Some v \<Rightarrow> Some (map (\<lambda>opt. the_string (Some opt)) (elements (Some v)))),
       answer_q = the_string (get q ''answer'') \<rparr>"

definition asLocation :: "json \<Rightarrow> Location" where
  "asLocation loc =
     \<lparr> id_loc = the_string (get loc ''id''),
       title = the_string (get loc ''title''),
       country = the_string (get loc ''country''),
       description = the_string (get loc ''description''),
       image_loc = the_string (get loc ''image''),
       video = the_nullable_string (get loc ''video''),
       audio = the_nullable_string (get loc ''audio''),
       coordinates = (the_number (item (elements (get loc ''coordinates'')) 0),
                      the_number (item (elements (get loc ''coordinates'')) 1)),
       questions = (case get loc ''questions'' of
                      None \<Rightarrow> None
                    | Some v \<Rightarrow> Some (map asQuestion (elements (Some v)))),
       block_navigation = (case get loc ''block_navigation'' of
                             None \<Rightarrow> None
                           | Some v \<Rightarrow> Some (the_boolean (Some v))) \<rparr>"

text \<open>
  \<^verbatim>\<open>validateLocationsData\<close> (App.tsx lines 12 to 50): \<open>None\<close> is the \<^verbatim>\<open>null\<close> it returns.
\<close>

definition validateLocationsData :: "json \<Rightarrow> Location list option" where
  "validateLocationsData data =
     (case data of
        JArr elems \<Rightarrow>
          (let validLocations = filter isLocation elems
           in if length validLocations \<noteq> length elems then None
              else Some (map asLocation validLocations))
      | _ \<Rightarrow> None)"

section \<open>Serialisation and the key/value store\<close>

text \<open>
  \<^verbatim>\<open>JSON.stringify\<close> and \<^verbatim>\<open>JSON.parse\<close> are built-ins of the platform, not code of the
  repository. A string handed to \<^verbatim>\<open>JSON.parse\<close> is represented by what the built-in makes
  of it: text that it rejects with a \<^verbatim>\<open>SyntaxError\<close> (kept verbatim), or text that denotes
  a JSON value. The layout of the characters (white space, escapes, digits) is not
  modelled.
\<close>

datatype jsontext = Malformed string | Wellformed json

fun JSON_parse :: "jsontext \<Rightarrow> json option" where
  "JSON_parse (Malformed _) = None"
| "JSON_parse (Wellformed v) = Some v"

text \<open>
  The truthiness test \<^verbatim>\<open>if (storedLocations)\<close> on a string: only the empty string is
  falsy, and the empty string is not JSON text.
\<close>

fun nonempty_text :: "jsontext \<Rightarrow> bool" where
  "nonempty_text (Malformed t) = (t \<noteq> [])"
| "nonempty_text (Wellformed _) = True"

text \<open>
  What \<^verbatim>\<open>JSON.stringify\<close> writes for a value of type \<^verbatim>\<open>Location[]\<close>: a finite number as
  itself, \<^verbatim>\<open>NaN\<close> and the infinities as \<^verbatim>\<open>null\<close>; \<^verbatim>\<open>null\<close> as \<^verbatim>\<open>null\<close>; a property
  whose value is \<^verbatim>\<open>undefined\<close> is left out.
\<close>

fun number_toJSON :: "number \<Rightarrow> json" where
  "number_toJSON (Fin r) = JNum (Fin r)"
| "number_toJSON _ = JNull"

fun QuestionType_toJSON :: "QuestionType \<Rightarrow> json" where
  "QuestionType_toJSON short_answer = JStr ''short_answer''"
| "QuestionType_toJSON true_false = JStr ''true_false''"
| "QuestionType_toJSON multiple_choice = JStr ''multiple_choice''"

fun nullable_toJSON :: "string option \<Rightarrow> json" where
  "nullable_toJSON None = JNull"
| "nullable_toJSON (Some s) = JStr s"

definition Question_toJSON :: "Question \<Rightarrow> json" where
  "Question_toJSON q =
     JObj ([(''id'', JStr (id_q q)),
            (''text'', JStr (text_q q)),
            (''type'', QuestionType_toJSON (type_q q))]
           @ (case options_q q of
                None \<Rightarrow> []
              | Some opts \<Rightarrow> [(''options'', JArr (map JStr opts))])
           @ [(''answer'', JStr (answer_q q))])"

definition Location_toJSON :: "Location \<Rightarrow> json" where
  "Location_toJSON loc =
     JObj ([(''id'', JStr (id_loc loc)),
            (''title'', JStr (title loc)),
            (''country'', JStr (country loc)),
            (''description'', JStr (description loc)),
            (''image'', JStr (image_loc loc)),
            (''video'', nullable_toJSON (video loc)),
            (''audio'', nullable_toJSON (audio loc)),
            (''coordinates'', JArr [number_toJSON (fst (coordinates loc)),
                                    number_toJSON (snd (coordinates loc))])]
           @ (case questions loc of
                None \<Rightarrow> []
              | Some qs \<Rightarrow> [(''questions'', JArr (map Question_toJSON qs))])
           @ (case block_navigation loc of
                None \<Rightarrow> []
              | Some b \<Rightarrow> [(''block_navigation'', JBool b)]))"

definition JSON_stringify :: "Location list \<Rightarrow> jsontext" where
  "JSON_stringify locs = Wellformed (JArr (map Location_toJSON locs))"

section \<open>The collection store (the App component)\<close>

text \<open>
  The state of \<^verbatim>\<open>App\<close> that the collection operations read and write, with the value
  that \<^verbatim>\<open>localStorage\<close> holds under the key \<^verbatim>\<open>'locations'\<close> (\<open>None\<close>: no such key).
  The view state (map centre, zoom, tour, side bar) takes no part in them.
\<close>

record AppState =
  locations :: "Location list"
  selectedCoords :: "LatLngTuple option"
  selectedCountry :: "string option"
  editingLocation :: "Location option"
  localStorage :: "jsontext option"

text \<open>The argument of \<^verbatim>\<open>handleSaveLocation\<close>, filled in by the form.\<close>

record FormData =
  form_title :: string
  form_description :: string
  form_image :: string
  form_video :: string
  form_audio :: string
  form_questions :: "Question list"
  form_block_navigation :: bool

text \<open>The component as mounted: \<^verbatim>\<open>useState\<close> defaults over whatever the store holds.\<close>

definition initial :: "jsontext option \<Rightarrow> AppState" where
  "initial stored =
     \<lparr> locations = [], selectedCoords = None, selectedCountry = None,
       editingLocation = None, localStorage = stored \<rparr>"

text \<open>
  The start-up effect (App.tsx lines 59 to 75; the fallback of \<^verbatim>\<open>fetchArtifactData\<close> in
  the variant with a remote artifact is the same text). The \<^verbatim>\<open>catch\<close> branch only logs.
\<close>

definition loadStoredLocations :: "AppState \<Rightarrow> AppState" where
  "loadStoredLocations s =
     (case localStorage s of
        None \<Rightarrow> s
      | Some storedLocations \<Rightarrow>
          if nonempty_text storedLocations then
            (case JSON_parse storedLocations of
               None \<Rightarrow> s
             | Some parsedData \<Rightarrow>
                 (case validateLocationsData parsedData of
                    Some validatedLocations \<Rightarrow> s\<lparr>locations := validatedLocations\<rparr>
                  | None \<Rightarrow> s\<lparr>localStorage := None\<rparr>))
          else s)"

definition updateStoredLocations :: "Location list \<Rightarrow> AppState \<Rightarrow> AppState" where
  "updateStoredLocations updatedLocations s =
     s\<lparr>localStorage := Some (JSON_stringify updatedLocations)\<rparr>"

definition insert_loc :: "Location \<Rightarrow> AppState \<Rightarrow> AppState" where
  "insert_loc newLocation s =
     (let updatedLocations = locations s @ [newLocation]
      in (updateStoredLocations updatedLocations s)\<lparr>locations := updatedLocations\<rparr>)"

text \<open>\<^verbatim>\<open>formData.video || null\<close>.\<close>

definition or_null :: "string \<Rightarrow> string option" where
  "or_null v = (if v = [] then None else Some v)"

text \<open>
  \<^verbatim>\<open>handleSaveLocation\<close> (lines 140 to 193). The guard \<^verbatim>\<open>!selectedCoords || !selectedCountry\<close>
  lets a tuple through and a string unless it is empty. \<open>now\<close> is what
  \<^verbatim>\<open>new Date().toISOString()\<close> returns at the call. The alert of the refused save is not
  modelled.
\<close>

definition handleSaveLocation :: "FormData \<Rightarrow> string \<Rightarrow> AppState \<Rightarrow> AppState" where
  "handleSaveLocation formData now s =
     (case selectedCoords s of
        None \<Rightarrow> s
      | Some coords \<Rightarrow>
          (case selectedCountry s of
             None \<Rightarrow> s
           | Some ctry \<Rightarrow>
               if ctry = [] then s
               else
                 (let s1 =
                    (case editingLocation s of
                       Some editing \<Rightarrow>
                         (let updatedLocation = editing
                                \<lparr> title := form_title formData,
                                  description := form_description formData,
                                  image_loc := form_image formData,
                                  video := or_null (form_video formData),
                                  audio := or_null (form_audio formData),
                                  coordinates := coords,
                                  country := ctry,
                                  questions := Some (form_questions formData),
                                  block_navigation := Some (form_block_navigation formData) \<rparr>;
                              updated = map (\<lambda>loc. if id_loc loc = id_loc editing
                                                   then updatedLocation else loc) (locations s)
                          in (updateStoredLocations updated s)\<lparr>locations := updated\<rparr>)
                     | None \<Rightarrow>
                         insert_loc
                           \<lparr> id_loc = now,
                             title = form_title formData,
                             country = ctry,
                             description = form_description formData,
                             image_loc = form_image formData,
                             video = or_null (form_video formData),
                             audio = or_null (form_audio formData),
                             coordinates = coords,
                             questions = Some (form_questions formData),
                             block_navigation = Some (form_block_navigation formData) \<rparr> s)
                  in s1\<lparr>selectedCoords := None, selectedCountry := None,
                        editingLocation := None\<rparr>)))"

definition handleCancelEdit :: "AppState \<Rightarrow> AppState" where
  "handleCancelEdit s =
     s\<lparr>editingLocation := None, selectedCoords := None, selectedCountry := None\<rparr>"

definition handleStartEdit :: "Location \<Rightarrow> AppState \<Rightarrow> AppState" where
  "handleStartEdit location s =
     s\<lparr>editingLocation := Some location,
       selectedCoords := Some (coordinates location),
       selectedCountry := Some (country location)\<rparr>"

text \<open>\<^verbatim>\<open>handleDeleteLocation\<close> (lines 195 to 204).\<close>

definition handleDeleteLocation :: "string \<Rightarrow> AppState \<Rightarrow> AppState" where
  "handleDeleteLocation i s =
     (let s1 = (case editingLocation s of
                  Some editing \<Rightarrow> if id_loc editing = i then handleCancelEdit s else s
                | None \<Rightarrow> s);
          updatedLocations = filter (\<lambda>loc. id_loc loc \<noteq> i) (locations s1)
      in (updateStoredLocations updatedLocations s1)\<lparr>locations := updatedLocations\<rparr>)"

text \<open>
  \<^verbatim>\<open>Array.prototype.splice(start, deleteCount, ...items)\<close> on integer arguments: a
  negative start counts from the end, both arguments are clamped to the array. The
  result is the removed elements and the array afterwards.
\<close>

definition splice :: "int \<Rightarrow> int \<Rightarrow> 'a list \<Rightarrow> 'a list \<Rightarrow> 'a list \<times> 'a list" where
  "splice start deleteCount new_items xs =
     (let len = int (length xs);
          actualStart = (if start < 0 then max (len + start) 0 else min start len);
          actualDeleteCount = min (max deleteCount 0) (len - actualStart)
      in (take (nat actualDeleteCount) (drop (nat actualStart) xs),
          take (nat actualStart) xs @ new_items
            @ drop (nat (actualStart + actualDeleteCount)) xs))"

text \<open>
  The two splices of \<^verbatim>\<open>handleReorderLocations\<close> (lines 340 to 342). When the first one
  removes nothing, \<^verbatim>\<open>reorderedItem\<close> is \<^verbatim>\<open>undefined\<close> and the source puts that into the
  array; the list of records has no such element, so this case is the result \<open>None\<close>.
\<close>

definition reorder_items :: "int \<Rightarrow> int \<Rightarrow> 'a list \<Rightarrow> 'a list option" where
  "reorder_items oldIndex newIndex prevLocations =
     (case splice oldIndex 1 [] prevLocations of
        ([], _) \<Rightarrow> None
      | (reorderedItem # _, items) \<Rightarrow>
          Some (snd (splice newIndex 0 [reorderedItem] items)))"

definition handleReorderLocations :: "int \<Rightarrow> int \<Rightarrow> AppState \<Rightarrow> AppState option" where
  "handleReorderLocations oldIndex newIndex s =
     (case reorder_items oldIndex newIndex (locations s) of
        None \<Rightarrow> None
      | Some items \<Rightarrow> Some ((updateStoredLocations items s)\<lparr>locations := items\<rparr>))"

text \<open>
  The \<^verbatim>\<open>onload\<close> callback of \<^verbatim>\<open>handleImport\<close> (lines 264 to 290) on the text of the
  chosen file; \<open>confirmed\<close> is the answer of \<^verbatim>\<open>window.confirm\<close>. An empty array is
  truthy, so an empty import is applied.
\<close>

definition handleImport :: "jsontext \<Rightarrow> bool \<Rightarrow> AppState \<Rightarrow> AppState" where
  "handleImport txt confirmed s =
     (if \<not> confirmed then s
      else
        (case JSON_parse txt of
           None \<Rightarrow> s
         | Some jsonData \<Rightarrow>
             (case validateLocationsData jsonData of
                Some validatedLocations \<Rightarrow>
                  updateStoredLocations validatedLocations
                    (s\<lparr>locations := validatedLocations\<rparr>)
              | None \<Rightarrow> s)))"

definition handleClearAllLocations :: "bool \<Rightarrow> AppState \<Rightarrow> AppState" where
  "handleClearAllLocations confirmed s =
     (if confirmed then updateStoredLocations [] (s\<lparr>locations := []\<rparr>) else s)"

text \<open>
  \<^verbatim>\<open>handleMapClick\<close> (lines 110 to 138) taken as one step: \<open>resolved\<close> is the country of the
  awaited reply, \<open>None\<close> when the reply has none or the request failed.
\<close>

definition handleMapClick :: "LatLngTuple \<Rightarrow> string option \<Rightarrow> AppState \<Rightarrow> AppState" where
  "handleMapClick coords resolved s =
     (let s1 = s\<lparr>selectedCoords := Some coords, selectedCountry := None\<rparr>;
          unresolved = (if editingLocation s = None then s1\<lparr>selectedCoords := None\<rparr> else s1)
      in case resolved of
           None \<Rightarrow> unresolved
         | Some c \<Rightarrow> if c = [] then unresolved else s1\<lparr>selectedCountry := Some c\<rparr>)"

subsection \<open>Sequences of operations\<close>

datatype event =
    Insert Location
  | SaveLocation FormData string
  | DeleteLocation string
  | ReorderLocations int int
  | StartEdit Location
  | CancelEdit
  | MapClick LatLngTuple "string option"

fun step :: "event \<Rightarrow> AppState \<Rightarrow> AppState option" where
  "step (Insert newLocation) s = Some (insert_loc newLocation s)"
| "step (SaveLocation formData now) s = Some (handleSaveLocation formData now s)"
| "step (DeleteLocation i) s = Some (handleDeleteLocation i s)"
| "step (ReorderLocations oldIndex newIndex) s = handleReorderLocations oldIndex newIndex s"
| "step (StartEdit location) s = Some (handleStartEdit location s)"
| "step CancelEdit s = Some (handleCancelEdit s)"
| "step (MapClick coords resolved) s = Some (handleMapClick coords resolved s)"

fun run :: "event list \<Rightarrow> AppState \<Rightarrow> AppState option" where
  "run [] s = Some s"
| "run (e # es) s = (case step e s of None \<Rightarrow> None | Some s' \<Rightarrow> run es s')"

text \<open>
  The id an event hands to \<^verbatim>\<open>insert\<close>: the one of the record passed in, or the clock
  reading of a save that creates.
\<close>

fun inserted_id :: "event \<Rightarrow> AppState \<Rightarrow> string option" where
  "inserted_id (Insert newLocation) s = Some (id_loc newLocation)"
| "inserted_id (SaveLocation formData now) s =
     (if selectedCoords s \<noteq> None \<and> selectedCountry s \<noteq> None \<and> selectedCountry s \<noteq> Some []
         \<and> editingLocation s = None
      then Some now else None)"
| "inserted_id _ s = None"

text \<open>
  Every id handed to \<^verbatim>\<open>insert\<close> along a run is new at that moment: what the store leaves
  to its caller.
\<close>

fun fresh_ids :: "event list \<Rightarrow> AppState \<Rightarrow> bool" where
  "fresh_ids [] s = True"
| "fresh_ids (e # es) s =
     ((case inserted_id e s of
         None \<Rightarrow> True
       | Some i \<Rightarrow> i \<notin> set (map id_loc (locations s)))
      \<and> (case step e s of None \<Rightarrow> True | Some s' \<Rightarrow> fresh_ids es s'))"

section \<open>Notions the properties are stated with\<close>

text \<open>
  A number that \<^verbatim>\<open>JSON.stringify\<close> writes as a number, and a record that is well-formed
  in the sense of the data model: its coordinates are a latitude and a longitude, so
  finite numbers. Every other field of the schema is fixed by the type \<open>Location\<close>.
\<close>

fun is_finite :: "number \<Rightarrow> bool" where
  "is_finite (Fin _) = True"
| "is_finite _ = False"

definition finite_coordinates :: "Location \<Rightarrow> bool" where
  "finite_coordinates loc \<longleftrightarrow>
     is_finite (fst (coordinates loc)) \<and> is_finite (snd (coordinates loc))"

text \<open>
  Reordering in the words of the specification: the element at \<open>oldIndex\<close> is taken out
  and put back at \<open>newIndex\<close> of the array that remains.
\<close>

definition spec_reorder :: "nat \<Rightarrow> nat \<Rightarrow> 'a list \<Rightarrow> 'a list" where
  "spec_reorder oldIndex newIndex xs =
     (let removed = xs ! oldIndex;
          remaining = take oldIndex xs @ drop (Suc oldIndex) xs
      in take newIndex remaining @ removed # drop newIndex remaining)"

text \<open>
  Deleting in the words of the specification: the first record that matches is removed,
  the others stay.
\<close>

fun remove_first :: "('a \<Rightarrow> bool) \<Rightarrow> 'a list \<Rightarrow> 'a list" where
  "remove_first P [] = []"
| "remove_first P (x # xs) = (if P x then xs else x # remove_first P xs)"

text \<open>The persisted value is the serialisation of the collection in memory.\<close>

definition in_sync :: "AppState \<Rightarrow> bool" where
  "in_sync s \<longleftrightarrow> localStorage s = Some (JSON_stringify (locations s))"

subsection \<open>Sample data\<close>

definition place :: "string \<Rightarrow> Location" where
  "place i =
     \<lparr> id_loc = i, title = ''Petra'', country = ''Jordan'',
       description = ''<p>Rose city</p>'', image_loc = [], video = None, audio = None,
       coordinates = (Fin 31.9, Fin 35.9), questions = None, block_navigation = None \<rparr>"

definition quiz :: Question where
  "quiz =
     \<lparr> id_q = ''q_1714557600000'', text_q = ''Who built the theatre?'',
       type_q = multiple_choice, options_q = Some [''Romans'', ''Nabataeans''],
       answer_q = ''Romans'' \<rparr>"

definition jerash :: Location where
  "jerash =
     \<lparr> id_loc = ''2024-05-01T10:00:00.000Z'', title = ''Jerash'', country = ''Jordan'',
       description = ''<p>Columns</p>'', image_loc = ''https://example.org/j.png'',
       video = Some ''https://example.org/j.mp4'', audio = None,
       coordinates = (Fin 32.27, Fin 35.89), questions = Some [quiz],
       block_navigation = Some True \<rparr>"

text \<open>
  What \<^verbatim>\<open>JSON.parse\<close> returns for an import file whose first coordinate is the literal
  \<^verbatim>\<open>1e999\<close> (a number too large for a double reads as \<^verbatim>\<open>Infinity\<close>), and the record
  the import leaves in memory.
\<close>

definition overflowing_import :: json where
  "overflowing_import =
     JArr [JObj [(''id'', JStr ''1''), (''title'', JStr ''Petra''), (''country'', JStr ''Jordan''),
                 (''description'', JStr ''<p>Rose city</p>''), (''image'', JStr []),
                 (''video'', JNull), (''audio'', JNull),
                 (''coordinates'', JArr [JNum PosInfinity, JNum (Fin 0)])]]"

definition overflowed :: Location where
  "overflowed = (place ''1'')\<lparr>coordinates := (PosInfinity, Fin 0)\<rparr>"

text \<open>A parsed element whose \<^verbatim>\<open>title\<close> is a number, and one without \<^verbatim>\<open>video\<close>.\<close>

definition mistyped :: json where
  "mistyped =
     JObj [(''id'', JStr ''2''), (''title'', JNum (Fin 7)), (''country'', JStr ''Jordan''),
           (''description'', JStr []), (''image'', JStr []), (''video'', JNull),
           (''audio'', JNull), (''coordinates'', JArr [JNum (Fin 31.9), JNum (Fin 35.9)])]"

definition well_formed_properties :: "(string \<times> json) list" where
  "well_formed_properties =
     [(''id'', JStr ''3''), (''title'', JStr ''Amman''), (''country'', JStr ''Jordan''),
      (''description'', JStr []), (''image'', JStr []), (''video'', JNull),
      (''audio'', JNull), (''coordinates'', JArr [JNum (Fin 31.9), JNum (Fin 35.9)])]"

definition without_video :: json where
  "without_video =
     JObj [(''id'', JStr ''4''), (''title'', JStr ''Aqaba''), (''country'', JStr ''Jordan''),
           (''description'', JStr []), (''image'', JStr []),
           (''audio'', JNull), (''coordinates'', JArr [JNum (Fin 29.5), JNum (Fin 35.0)])]"

definition form :: FormData where
  "form =
     \<lparr> form_title = ''Petra by night'', form_description = ''<p>Candles</p>'',
       form_image = [], form_video = [], form_audio = [], form_questions = [],
       form_block_navigation = False \<rparr>"

text \<open>A form with every field that has a value filled in.\<close>

definition rich_form :: FormData where
  "rich_form =
     \<lparr> form_title = ''Petra by night'', form_description = ''<p>Candles</p>'',
       form_image = ''https://example.org/p.png'', form_video = ''https://example.org/p.mp4'',
       form_audio = [], form_questions = [quiz], form_block_navigation = True \<rparr>"

text \<open>States: a record open for editing, a pin selected for a new record, four records.\<close>

definition editing_state :: AppState where
  "editing_state =
     \<lparr> locations = [place ''A'', jerash], selectedCoords = Some (Fin 30.3, Fin 35.4),
       selectedCountry = Some ''Jordan'', editingLocation = Some (place ''A''),
       localStorage = None \<rparr>"

definition creating_state :: AppState where
  "creating_state =
     \<lparr> locations = [jerash], selectedCoords = Some (Fin 31.9, Fin 35.9),
       selectedCountry = Some ''Jordan'', editingLocation = None,
       localStorage = Some (JSON_stringify [jerash]) \<rparr>"

definition four_places :: AppState where
  "four_places =
     \<lparr> locations = [place ''A'', place ''B'', place ''C'', place ''D''],
       selectedCoords = None, selectedCountry = None, editingLocation = None,
       localStorage = None \<rparr>"

text \<open>
  Two saves that read the same clock, and a session that creates, edits, inserts, reorders
  and deletes.
\<close>

definition same_clock :: "event list" where
  "same_clock =
     [MapClick (Fin 31.9, Fin 35.9) (Some ''Jordan''),
      SaveLocation form ''2024-05-02T08:30:00.000Z'',
      MapClick (Fin 30.3, Fin 35.4) (Some ''Jordan''),
      SaveLocation form ''2024-05-02T08:30:00.000Z'']"

definition session :: "event list" where
  "session =
     [SaveLocation form ''2024-05-02T08:30:00.000Z'',
      StartEdit jerash,
      MapClick (Fin 32.3, Fin 35.9) (Some ''Jordan''),
      SaveLocation form ''2024-05-02T08:31:00.000Z'',
      Insert (place ''A''),
      ReorderLocations 0 2,
      DeleteLocation ''2024-05-02T08:30:00.000Z'']"

text \<open>A state whose record open for editing is no longer in the collection.\<close>

definition stale_state :: AppState where
  "stale_state =
     \<lparr> locations = [jerash], selectedCoords = Some (Fin 30.3, Fin 35.4),
       selectedCountry = Some ''Jordan'', editingLocation = Some (place ''A''),
       localStorage = Some (JSON_stringify [jerash]) \<rparr>"

section \<open>Lemmas\<close>

subsection \<open>The validator\<close>

lemma validateLocationsData_array:
  "validateLocationsData (JArr elems) =
     (if list_all isLocation elems then Some (map asLocation elems) else None)"
proof (cases "list_all isLocation elems")
  case True
  then have "filter isLocation elems = elems" by (simp add: list_all_iff)
  with True show ?thesis by (simp add: validateLocationsData_def)
next
  case False
  then obtain x where "x \<in> set elems" "\<not> isLocation x" by (auto simp: list_all_iff)
  then have "length (filter isLocation elems) < length elems" by (rule length_filter_less)
  with False show ?thesis by (simp add: validateLocationsData_def)
qed

lemma validateLocationsData_length:
  "validateLocationsData data = Some L \<Longrightarrow> \<exists>elems. data = JArr elems \<and> length L = length elems"
  by (cases data) (auto simp: validateLocationsData_def Let_def split: if_splits)

subsection \<open>Serialising and reading back\<close>

lemma the_type_toJSON: "the_type (Some (QuestionType_toJSON t)) = t"
  by (cases t) simp_all

lemma includes_type_toJSON: "includes_type (Some (QuestionType_toJSON t))"
  by (cases t) simp_all

lemma isQuestion_toJSON: "isQuestion (Question_toJSON q)"
  by (cases "options_q q")
     (simp_all add: isQuestion_def Question_toJSON_def includes_type_toJSON list_all_iff)

lemma asQuestion_toJSON: "asQuestion (Question_toJSON q) = q"
  by (cases "options_q q")
     (simp_all add: asQuestion_def Question_toJSON_def the_type_toJSON comp_def)

lemma typeof_number_toJSON: "typeof_number (Some (number_toJSON n)) = is_finite n"
  by (cases n) simp_all

lemma the_number_toJSON: "is_finite n \<Longrightarrow> the_number (Some (number_toJSON n)) = n"
  by (cases n) simp_all

lemma null_or_string_toJSON: "null_or_string (Some (nullable_toJSON v))"
  by (cases v) simp_all

lemma the_nullable_toJSON: "the_nullable_string (Some (nullable_toJSON v)) = v"
  by (cases v) simp_all

lemma isLocation_toJSON: "isLocation (Location_toJSON loc) = finite_coordinates loc"
  by (cases "questions loc"; cases "block_navigation loc")
     (simp_all add: isLocation_def Location_toJSON_def item_def finite_coordinates_def
        typeof_number_toJSON null_or_string_toJSON list_all_iff isQuestion_toJSON)

lemma asLocation_toJSON:
  "finite_coordinates loc \<Longrightarrow> asLocation (Location_toJSON loc) = loc"
  by (cases "questions loc"; cases "block_navigation loc")
     (simp_all add: asLocation_def Location_toJSON_def item_def finite_coordinates_def
        the_number_toJSON the_nullable_toJSON asQuestion_toJSON comp_def)

lemma validate_parse_stringify:
  "Option.bind (JSON_parse (JSON_stringify L)) validateLocationsData =
     (if list_all finite_coordinates L then Some L else None)"
proof -
  have a: "list_all isLocation (map Location_toJSON L) = list_all finite_coordinates L"
    by (simp add: list_all_iff isLocation_toJSON)
  have b: "list_all finite_coordinates L \<Longrightarrow> map (asLocation \<circ> Location_toJSON) L = L"
    by (induction L) (simp_all add: asLocation_toJSON)
  show ?thesis
    using b by (simp add: JSON_stringify_def validateLocationsData_array a)
qed

text \<open>
  Outside the well-formed records: the validator lets a coordinate through that is not
  finite (\<^verbatim>\<open>typeof\<close> calls it a number), and rejects what \<^verbatim>\<open>JSON.stringify\<close> writes for it.
\<close>

lemma nonfinite_coordinate_not_restored:
  "validateLocationsData overflowing_import = Some [overflowed]
   \<and> Option.bind (JSON_parse (JSON_stringify [overflowed])) validateLocationsData = None"
proof -
  have "validateLocationsData overflowing_import = Some [overflowed]"
    by (simp add: overflowing_import_def validateLocationsData_array isLocation_def item_def
          asLocation_def overflowed_def place_def)
  moreover
  have "Option.bind (JSON_parse (JSON_stringify [overflowed])) validateLocationsData = None"
    by (simp add: validate_parse_stringify finite_coordinates_def overflowed_def)
  ultimately show ?thesis by (rule conjI)
qed

subsection \<open>Splicing\<close>

lemma splice_mset:
  "mset (fst (splice a dc ins xs)) + mset (snd (splice a dc ins xs)) = mset xs + mset ins"
proof -
  define len where "len = int (length xs)"
  define st where "st = (if a < 0 then max (len + a) 0 else min a len)"
  define k where "k = min (max dc 0) (len - st)"
  have st: "0 \<le> st" "st \<le> len" by (auto simp: st_def len_def)
  then have k: "0 \<le> k" by (auto simp: k_def)
  have nk: "nat (st + k) = nat st + nat k" using st k by (simp add: nat_add_distrib)
  have "xs = take (nat st) xs @ drop (nat st) xs" by simp
  also have "drop (nat st) xs = take (nat k) (drop (nat st) xs) @ drop (nat k) (drop (nat st) xs)"
    by (rule append_take_drop_id[symmetric])
  also have "drop (nat k) (drop (nat st) xs) = drop (nat (st + k)) xs"
    by (subst nk) (simp add: add.commute)
  finally have split: "xs = take (nat st) xs @ take (nat k) (drop (nat st) xs) @ drop (nat (st + k)) xs" .
  have "mset xs = mset (take (nat st) xs) + mset (take (nat k) (drop (nat st) xs))
                    + mset (drop (nat (st + k)) xs)"
    by (subst split) (simp only: mset_append add.assoc)
  moreover have "splice a dc ins xs = (take (nat k) (drop (nat st) xs),
          take (nat st) xs @ ins @ drop (nat (st + k)) xs)"
    unfolding splice_def Let_def len_def st_def k_def ..
  ultimately show ?thesis
    by simp 
qed

lemma splice_one_removed: "length (fst (splice a 1 ins xs)) \<le> 1"
  by (simp add: splice_def Let_def min_def)

lemma reorder_items_mset:
  assumes "reorder_items old new xs = Some ys"
  shows "mset ys = mset xs"
proof -
  obtain removed items where sp: "splice old 1 [] xs = (removed, items)" by force
  with assms obtain x rest where r: "removed = x # rest"
    by (auto simp: reorder_items_def split: list.splits)
  have "length removed \<le> 1" using splice_one_removed[of old "[]" xs] sp by simp
  with r have rest: "rest = []" by simp
  from assms sp r have ys: "ys = snd (splice new 0 [x] items)"
    by (simp add: reorder_items_def)
  have "mset removed + mset items = mset xs"
    using splice_mset[of old 1 "[]" xs] sp by simp
  moreover have "fst (splice new 0 [x] items) = []"
    by (simp add: splice_def Let_def)
  then have "mset ys = mset items + {#x#}"
    using splice_mset[of new 0 "[x]" items] ys by simp
  ultimately show ?thesis using r rest by simp
qed

lemma splice_in_range:
  assumes "0 \<le> a" "a \<le> int (length xs)" "0 \<le> dc" "a + dc \<le> int (length xs)"
  shows "splice a dc ins xs = (take (nat dc) (drop (nat a) xs), take (nat a) xs @ ins @ drop (nat a + nat dc) xs)"
  using assms by (simp add: splice_def Let_def min_def max_def nat_add_distrib)

lemma reorder_items_in_range:
  assumes "0 \<le> old" "old < int (length xs)" "0 \<le> new" "new < int (length xs)"
  shows "reorder_items old new xs = Some (spec_reorder (nat old) (nat new) xs)"
proof -
  from assms have o: "nat old < length xs" by simp
  have d: "drop (nat old) xs = xs ! nat old # drop (Suc (nat old)) xs"
    using o by (simp add: Cons_nth_drop_Suc)
  define items where "items = take (nat old) xs @ drop (Suc (nat old)) xs"
  have l: "int (length items) = int (length xs) - 1"
    using o by (simp add: items_def min_def)
  have s1: "splice old 1 [] xs = ([xs ! nat old], items)"
    using assms d by (simp add: splice_in_range items_def)
  have s2: "splice new 0 [xs ! nat old] items = ([], take (nat new) items @ [xs ! nat old] @ drop (nat new) items)"
    using assms l by (simp add: splice_in_range)
  show ?thesis
    by (simp add: reorder_items_def s1 s2 spec_reorder_def Let_def flip: items_def)
qed

lemma reorder_items_example: "reorder_items 0 2 [a, b, c, d] = Some [b, c, a, d]"
  by (simp add: reorder_items_def splice_def)

lemma spec_reorder_nth:
  assumes "old < length xs" "new < length xs"
  shows "spec_reorder old new xs ! new = xs ! old"
  using assms by (simp add: spec_reorder_def Let_def nth_append min_def)

lemma spec_reorder_rest:
  assumes "old < length xs" "new < length xs"
  shows "take new (spec_reorder old new xs) @ drop (Suc new) (spec_reorder old new xs)
           = take old xs @ drop (Suc old) xs"
proof -
  define remaining where "remaining = take old xs @ drop (Suc old) xs"
  have n: "new \<le> length remaining"
    using assms by (simp add: remaining_def min_def)
  have l: "length (take new remaining) = new" using n by simp
  have sr: "spec_reorder old new xs = take new remaining @ xs ! old # drop new remaining"
    by (simp add: spec_reorder_def Let_def remaining_def)
  have "take new (spec_reorder old new xs) = take new remaining"
    unfolding sr using l by simp
  moreover have "drop (Suc new) (spec_reorder old new xs) = drop new remaining"
    unfolding sr using l by simp
  ultimately show ?thesis by (simp add: remaining_def[symmetric])
qed

subsection \<open>The operations of the store\<close>

lemmas handler_defs =
  handleSaveLocation_def handleMapClick_def handleStartEdit_def handleCancelEdit_def
  handleDeleteLocation_def handleReorderLocations_def reorder_items_def splice_def
  insert_loc_def updateStoredLocations_def initial_def Let_def

lemma locations_insert_loc [simp]: "locations (insert_loc l s) = locations s @ [l]"
  by (simp add: insert_loc_def updateStoredLocations_def Let_def)

lemma locations_delete [simp]:
  "locations (handleDeleteLocation i s) = filter (\<lambda>loc. id_loc loc \<noteq> i) (locations s)"
  by (simp add: handleDeleteLocation_def handleCancelEdit_def updateStoredLocations_def Let_def
      split: option.splits)

lemma storage_delete:
  "localStorage (handleDeleteLocation i s) =
     Some (JSON_stringify (filter (\<lambda>loc. id_loc loc \<noteq> i) (locations s)))"
  by (simp add: handleDeleteLocation_def handleCancelEdit_def updateStoredLocations_def Let_def
      split: option.splits)

lemma filter_remove_first:
  "distinct (map f xs) \<Longrightarrow> filter (\<lambda>x. f x \<noteq> i) xs = remove_first (\<lambda>x. f x = i) xs"
proof (induction xs)
  case Nil
  then show ?case by simp
next
  case (Cons x xs)
  show ?case
  proof (cases "f x = i")
    case True
    with Cons.prems have "\<forall>y\<in>set xs. f y \<noteq> i" by (force simp: image_iff)
    then have "filter (\<lambda>x. f x \<noteq> i) xs = xs" by (simp add: filter_id_conv)
    with True show ?thesis by simp
  next
    case False
    with Cons show ?thesis by simp
  qed
qed

lemma ids_save:
  "map id_loc (locations (handleSaveLocation fd now s)) =
     (case inserted_id (SaveLocation fd now) s of
        None \<Rightarrow> map id_loc (locations s)
      | Some i \<Rightarrow> map id_loc (locations s) @ [i])"
  by (auto simp: handleSaveLocation_def updateStoredLocations_def Let_def comp_def insert_loc_def
      split: option.splits intro!: map_cong)

lemma locations_reorder:
  assumes "handleReorderLocations old new s = Some s'"
  shows "mset (locations s') = mset (locations s)"
proof -
  from assms obtain items where i: "reorder_items old new (locations s) = Some items"
    and l: "locations s' = items"
    by (auto simp: handleReorderLocations_def updateStoredLocations_def split: option.splits)
  from i have "mset items = mset (locations s)" by (rule reorder_items_mset)
  with l show ?thesis by simp
qed

lemma distinct_ids_mset:
  assumes "mset ys = mset xs"
  shows "distinct (map f ys) = distinct (map f xs)"
proof -
  from assms have "mset (map f ys) = mset (map f xs)" by simp
  then show ?thesis by (rule mset_eq_imp_distinct_iff)
qed

lemma locations_start_edit [simp]: "locations (handleStartEdit l s) = locations s"
  by (simp add: handleStartEdit_def)

lemma locations_cancel_edit [simp]: "locations (handleCancelEdit s) = locations s"
  by (simp add: handleCancelEdit_def)

lemma locations_map_click [simp]: "locations (handleMapClick c r s) = locations s"
  by (simp add: handleMapClick_def Let_def split: option.splits)

lemma step_save_distinct:
  assumes "distinct (map id_loc (locations s))"
      and "case inserted_id (SaveLocation fd now) s of None \<Rightarrow> True
           | Some i \<Rightarrow> i \<notin> set (map id_loc (locations s))"
  shows "distinct (map id_loc (locations (handleSaveLocation fd now s)))"
proof (cases "inserted_id (SaveLocation fd now) s")
  case None
  then have "map id_loc (locations (handleSaveLocation fd now s)) = map id_loc (locations s)"
    by (simp only: ids_save option.case)
  then show ?thesis using assms(1) by (simp only:)
next
  case (Some i)
  then have "map id_loc (locations (handleSaveLocation fd now s)) = map id_loc (locations s) @ [i]"
    by (simp only: ids_save option.case)
  moreover from assms(2) have "i \<notin> set (map id_loc (locations s))"
    unfolding Some option.case .
  ultimately show ?thesis using assms(1) by (simp only: distinct_append distinct.simps) simp
qed

lemma step_distinct:
  assumes "distinct (map id_loc (locations s))"
      and "step e s = Some s'"
      and "case inserted_id e s of None \<Rightarrow> True | Some i \<Rightarrow> i \<notin> set (map id_loc (locations s))"
  shows "distinct (map id_loc (locations s'))"
proof (cases e)
  case (Insert l)
  from assms(2) have "s' = insert_loc l s" unfolding Insert by simp
  then have "locations s' = locations s @ [l]" by simp
  moreover from assms(3) have "id_loc l \<notin> set (map id_loc (locations s))"
    unfolding Insert by simp
  ultimately show ?thesis using assms(1) by simp
next
  case (SaveLocation fd now)
  from assms(2) have s': "s' = handleSaveLocation fd now s" unfolding SaveLocation by simp
  from assms(3) have "case inserted_id (SaveLocation fd now) s of None \<Rightarrow> True
           | Some i \<Rightarrow> i \<notin> set (map id_loc (locations s))"
    unfolding SaveLocation .
  with assms(1) show ?thesis unfolding s' by (rule step_save_distinct)
next
  case (DeleteLocation i)
  from assms(2) have "s' = handleDeleteLocation i s" unfolding DeleteLocation by simp
  then have "locations s' = filter (\<lambda>loc. id_loc loc \<noteq> i) (locations s)" by simp
  then show ?thesis using assms(1) by (simp add: distinct_map_filter)
next
  case (ReorderLocations old new)
  from assms(2) have "handleReorderLocations old new s = Some s'"
    unfolding ReorderLocations by simp
  then have "mset (locations s') = mset (locations s)" by (rule locations_reorder)
  then have "distinct (map id_loc (locations s')) = distinct (map id_loc (locations s))"
    by (rule distinct_ids_mset)
  then show ?thesis using assms(1) by simp
next
  case (StartEdit l)
  from assms(2) have "s' = handleStartEdit l s" unfolding StartEdit by simp
  then show ?thesis using assms(1) by simp
next
  case CancelEdit
  from assms(2) have "s' = handleCancelEdit s" unfolding CancelEdit by simp
  then show ?thesis using assms(1) by simp
next
  case (MapClick c r)
  from assms(2) have "s' = handleMapClick c r s" unfolding MapClick by simp
  then show ?thesis using assms(1) by simp
qed

subsection \<open>Start-up and the media fields\<close>

lemma startup_corrupt_text:
  "loadStoredLocations (initial (Some (Malformed t))) = initial (Some (Malformed t))"
  by (simp add: loadStoredLocations_def initial_def)

lemma startup_invalid_data:
  "validateLocationsData v = None \<Longrightarrow>
   loadStoredLocations (initial (Some (Wellformed v))) = initial None"
  by (simp add: loadStoredLocations_def initial_def)

lemma isLocation_media:
  "isLocation x \<Longrightarrow> null_or_string (get x ''video'') \<and> null_or_string (get x ''audio'')"
  by (simp add: isLocation_def)

lemma isLocation_with_video:
  "isLocation (JObj ps) \<Longrightarrow> isLocation (JObj ((''video'', v) # ps)) = null_or_string (Some v)"
  by (simp add: isLocation_def)

lemma isLocation_with_audio:
  "isLocation (JObj ps) \<Longrightarrow> isLocation (JObj ((''audio'', v) # ps)) = null_or_string (Some v)"
  by (simp add: isLocation_def)

lemma null_or_string_Some:
  "null_or_string (Some v) \<longleftrightarrow> v = JNull \<or> (\<exists>t. v = JStr t)"
  by (cases v) simp_all

lemma not_null_or_string:
  assumes "v = None \<or> (\<exists>n. v = Some (JNum n)) \<or> (\<exists>b. v = Some (JBool b))
          \<or> (\<exists>fs. v = Some (JObj fs)) \<or> (\<exists>vs. v = Some (JArr vs))"
  shows "\<not> null_or_string v"
  using assms by (elim disjE exE) simp_all

section \<open>The claims\<close>

text \<open>
  C1. All-or-nothing validation: when at least one element of the input array fails a
  check of the validator (a field of the wrong type, a required field missing, a
  malformed question), \<open>validateLocationsData\<close> returns \<^verbatim>\<open>null\<close> for the whole input, whatever
  the other elements are; it never returns the accepted elements alone.
\<close>

theorem validate_all_or_nothing:
  assumes "x \<in> set elems" and "\<not> isLocation x"
  shows "validateLocationsData (JArr elems) = None"
proof -
  from assms have "\<not> list_all isLocation elems" by (auto simp: list_all_iff)
  then show ?thesis by (simp add: validateLocationsData_array)
qed

theorem validate_all_or_nothing_witness:
  "mistyped \<in> set [Location_toJSON jerash, mistyped, JObj well_formed_properties]
   \<and> \<not> isLocation mistyped
   \<and> isLocation (Location_toJSON jerash)
   \<and> isLocation (JObj well_formed_properties)
   \<and> validateLocationsData (JArr [Location_toJSON jerash, mistyped, JObj well_formed_properties])
       = None"
proof -
  have m: "mistyped \<in> set [Location_toJSON jerash, mistyped, JObj well_formed_properties]"
    by simp
  have n: "\<not> isLocation mistyped"
    by (simp add: isLocation_def mistyped_def)
  have j: "isLocation (Location_toJSON jerash)"
    by (simp add: isLocation_toJSON finite_coordinates_def jerash_def)
  have w: "isLocation (JObj well_formed_properties)"
    by (simp add: isLocation_def well_formed_properties_def item_def)
  from validate_all_or_nothing [OF m n] m n j w show ?thesis by simp
qed

text \<open>
  C2. Start-up on the persisted string \<^verbatim>\<open>{not json\<close>: \<^verbatim>\<open>JSON.parse\<close> throws, the \<^verbatim>\<open>catch\<close>
  branch logs, the collection stays empty, and the key still holds the corrupt string.
  Only the branch for data that parses and fails validation calls \<^verbatim>\<open>removeItem\<close>.
\<close>

theorem startup_keeps_corrupt_text:
  "locations (loadStoredLocations (initial (Some (Malformed ''{not json'')))) = []
   \<and> localStorage (loadStoredLocations (initial (Some (Malformed ''{not json''))))
       = Some (Malformed ''{not json'')"
  by (simp add: loadStoredLocations_def initial_def)

text \<open>
  C3. Persistence coupling: after each mutating operation (insert, the save that creates
  or updates, delete, reorder, import, clear) the value under the key \<^verbatim>\<open>locations\<close> is
  the serialisation of the collection in memory, from any state. A save is a mutation
  when the selection is complete, an import when the text parses and validates; both
  dialogs are taken as confirmed.
\<close>

theorem persisted_equals_serialized:
  "in_sync (insert_loc newLocation s)
   \<and> (selectedCoords s \<noteq> None \<and> selectedCountry s \<noteq> None \<and> selectedCountry s \<noteq> Some [] \<longrightarrow>
        in_sync (handleSaveLocation formData now s))
   \<and> in_sync (handleDeleteLocation i s)
   \<and> (\<forall>s'. handleReorderLocations oldIndex newIndex s = Some s' \<longrightarrow> in_sync s')
   \<and> (\<forall>jsonData validated. JSON_parse txt = Some jsonData
          \<and> validateLocationsData jsonData = Some validated \<longrightarrow>
        in_sync (handleImport txt True s) \<and> locations (handleImport txt True s) = validated)
   \<and> in_sync (handleClearAllLocations True s)"
  by (auto simp: in_sync_def insert_loc_def handleSaveLocation_def handleDeleteLocation_def
        handleReorderLocations_def handleImport_def handleClearAllLocations_def
        handleCancelEdit_def updateStoredLocations_def Let_def split: option.splits)

theorem persisted_equals_serialized_witness:
  "selectedCoords creating_state \<noteq> None
   \<and> selectedCountry creating_state \<noteq> None
   \<and> selectedCountry creating_state \<noteq> Some []
   \<and> in_sync (handleSaveLocation form ''2024-05-02T08:30:00.000Z'' creating_state)
   \<and> locations (handleSaveLocation form ''2024-05-02T08:30:00.000Z'' creating_state) \<noteq> locations creating_state
   \<and> in_sync (insert_loc (place ''A'') creating_state)
   \<and> in_sync (handleDeleteLocation ''2024-05-01T10:00:00.000Z'' creating_state)
   \<and> (\<exists>s'. handleReorderLocations 0 2 four_places = Some s' \<and> in_sync s')
   \<and> JSON_parse (JSON_stringify [jerash]) = Some (JArr [Location_toJSON jerash])
   \<and> validateLocationsData (JArr [Location_toJSON jerash]) = Some [jerash]
   \<and> in_sync (handleImport (JSON_stringify [jerash]) True four_places)
   \<and> locations (handleImport (JSON_stringify [jerash]) True four_places) = [jerash]
   \<and> in_sync (handleClearAllLocations True creating_state)"
proof -
  note t = persisted_equals_serialized
  have h: "selectedCoords creating_state \<noteq> None \<and> selectedCountry creating_state \<noteq> None
           \<and> selectedCountry creating_state \<noteq> Some []"
    by (simp add: creating_state_def)
  have l: "locations (handleSaveLocation form ''2024-05-02T08:30:00.000Z'' creating_state)
             \<noteq> locations creating_state"
    by (simp add: handleSaveLocation_def creating_state_def insert_loc_def
          updateStoredLocations_def Let_def)
  obtain s' where r: "handleReorderLocations 0 2 four_places = Some s'"
    by (simp add: handleReorderLocations_def reorder_items_def splice_def four_places_def)
  have p: "JSON_parse (JSON_stringify [jerash]) = Some (JArr [Location_toJSON jerash])"
    by (simp add: JSON_stringify_def)
  have v: "validateLocationsData (JArr [Location_toJSON jerash]) = Some [jerash]"
    by (simp add: validateLocationsData_array isLocation_toJSON asLocation_toJSON
          finite_coordinates_def jerash_def)
  from t [of "place ''A''" creating_state form "''2024-05-02T08:30:00.000Z''"
            "''2024-05-01T10:00:00.000Z''"] h
  have 1: "in_sync (insert_loc (place ''A'') creating_state)
         \<and> in_sync (handleSaveLocation form ''2024-05-02T08:30:00.000Z'' creating_state)
         \<and> in_sync (handleDeleteLocation ''2024-05-01T10:00:00.000Z'' creating_state)
         \<and> in_sync (handleClearAllLocations True creating_state)"
    by blast
  from t [of _ four_places _ _ _ 0 2 "JSON_stringify [jerash]"] r p v
  have 2: "in_sync s' \<and> in_sync (handleImport (JSON_stringify [jerash]) True four_places)
         \<and> locations (handleImport (JSON_stringify [jerash]) True four_places) = [jerash]"
    by blast
  from h l r p v 1 2 show ?thesis by blast
qed

text \<open>
  C4. Reorder is one splice out and one splice in, not a swap: \<open>[A, B, C, D]\<close> with
  \<open>reorder 0 2\<close> gives \<open>[B, C, A, D]\<close>, and for indices in range the result is the list
  of the specification: the moved element stands at \<open>newIndex\<close>, the other elements keep
  their order, and the result is a permutation of the collection.
\<close>

theorem reorder_is_splice:
  "reorder_items 0 2 [a, b, c, d] = Some [b, c, a, d]
   \<and> (0 \<le> oldIndex \<and> oldIndex < int (length (locations s))
      \<and> 0 \<le> newIndex \<and> newIndex < int (length (locations s)) \<longrightarrow>
      (\<exists>s'. handleReorderLocations oldIndex newIndex s = Some s'
         \<and> locations s' = spec_reorder (nat oldIndex) (nat newIndex) (locations s)
         \<and> locations s' ! nat newIndex = locations s ! nat oldIndex
         \<and> take (nat newIndex) (locations s') @ drop (Suc (nat newIndex)) (locations s')
             = take (nat oldIndex) (locations s) @ drop (Suc (nat oldIndex)) (locations s)
         \<and> mset (locations s') = mset (locations s)))"
proof (intro conjI impI)
  show "reorder_items 0 2 [a, b, c, d] = Some [b, c, a, d]" by (rule reorder_items_example)
next
  assume h: "0 \<le> oldIndex \<and> oldIndex < int (length (locations s))
      \<and> 0 \<le> newIndex \<and> newIndex < int (length (locations s))"
  define items where "items = spec_reorder (nat oldIndex) (nat newIndex) (locations s)"
  define s' where "s' = (updateStoredLocations items s)\<lparr>locations := items\<rparr>"
  from h have ri: "reorder_items oldIndex newIndex (locations s) = Some items"
    by (simp add: reorder_items_in_range items_def)
  then have r: "handleReorderLocations oldIndex newIndex s = Some s'"
    by (simp add: handleReorderLocations_def s'_def)
  have l: "locations s' = items" by (simp add: s'_def updateStoredLocations_def)
  have o: "nat oldIndex < length (locations s)" and n: "nat newIndex < length (locations s)"
    using h by auto
  have "locations s' ! nat newIndex = locations s ! nat oldIndex"
    unfolding l items_def using o n by (rule spec_reorder_nth)
  moreover have "take (nat newIndex) (locations s') @ drop (Suc (nat newIndex)) (locations s')
             = take (nat oldIndex) (locations s) @ drop (Suc (nat oldIndex)) (locations s)"
    unfolding l items_def using o n by (rule spec_reorder_rest)
  moreover have "mset (locations s') = mset (locations s)"
    unfolding l using ri by (rule reorder_items_mset)
  ultimately show "\<exists>s'. handleReorderLocations oldIndex newIndex s = Some s'
         \<and> locations s' = spec_reorder (nat oldIndex) (nat newIndex) (locations s)
         \<and> locations s' ! nat newIndex = locations s ! nat oldIndex
         \<and> take (nat newIndex) (locations s') @ drop (Suc (nat newIndex)) (locations s')
             = take (nat oldIndex) (locations s) @ drop (Suc (nat oldIndex)) (locations s)
         \<and> mset (locations s') = mset (locations s)"
    using r l items_def by blast
qed

theorem reorder_is_splice_witness:
  "(0::int) \<le> 0 \<and> (0::int) < int (length (locations four_places))
   \<and> (0::int) \<le> 2 \<and> (2::int) < int (length (locations four_places))
   \<and> map_option (map id_loc \<circ> locations) (handleReorderLocations 0 2 four_places)
       = Some [''B'', ''C'', ''A'', ''D'']
   \<and> (\<exists>s'. handleReorderLocations 0 2 four_places = Some s'
         \<and> locations s' = spec_reorder (nat 0) (nat 2) (locations four_places)
         \<and> mset (locations s') = mset (locations four_places))"
proof -
  have h: "(0::int) \<le> 0 \<and> (0::int) < int (length (locations four_places))
      \<and> (0::int) \<le> 2 \<and> (2::int) < int (length (locations four_places))"
    by (simp add: four_places_def)
  have e: "map_option (map id_loc \<circ> locations) (handleReorderLocations 0 2 four_places)
       = Some [''B'', ''C'', ''A'', ''D'']"
    by (simp add: handleReorderLocations_def reorder_items_def splice_def four_places_def
          updateStoredLocations_def place_def)
  from reorder_is_splice [where oldIndex = 0 and newIndex = 2 and s = four_places,
      THEN conjunct2, THEN mp, OF h]
  have "\<exists>s'. handleReorderLocations 0 2 four_places = Some s'
         \<and> locations s' = spec_reorder (nat 0) (nat 2) (locations four_places)
         \<and> mset (locations s') = mset (locations four_places)"
    by blast
  with h e show ?thesis by blast
qed

text \<open>
  C5, as stated, fails: a save that reads the clock value of an earlier save appends a
  second record with the same id.
\<close>

theorem ids_repeat_counterexample:
  "distinct (map id_loc (locations (initial None)))
   \<and> map_option (map id_loc \<circ> locations) (run same_clock (initial None))
       = Some [''2024-05-02T08:30:00.000Z'', ''2024-05-02T08:30:00.000Z'']
   \<and> \<not> distinct [''2024-05-02T08:30:00.000Z'', ''2024-05-02T08:30:00.000Z'']"
  by (simp add: same_clock_def handler_defs)

text \<open>
  C5, amended. From a collection with unique ids, after any sequence of insert, update,
  delete and reorder operations (and of the selections that precede a save) in which
  every id handed to insert is new at that moment, all ids are unique.
\<close>

theorem ids_remain_unique:
  assumes "distinct (map id_loc (locations s))"
      and "fresh_ids evs s"
      and "run evs s = Some s'"
  shows "distinct (map id_loc (locations s'))"
  using assms
proof (induction evs arbitrary: s)
  case Nil
  then show ?case by simp
next
  case (Cons e evs)
  from Cons.prems(3) obtain s1 where s1: "step e s = Some s1" and r: "run evs s1 = Some s'"
    by (auto split: option.splits)
  from Cons.prems(2) s1 have f: "fresh_ids evs s1"
    and i: "case inserted_id e s of None \<Rightarrow> True | Some i \<Rightarrow> i \<notin> set (map id_loc (locations s))"
    by simp_all
  have "distinct (map id_loc (locations s1))"
    using Cons.prems(1) s1 i by (rule step_distinct)
  then show ?case using f r by (rule Cons.IH)
qed

theorem ids_remain_unique_witness:
  "distinct (map id_loc (locations creating_state))
   \<and> fresh_ids session creating_state
   \<and> (\<exists>s'. run session creating_state = Some s'
         \<and> map id_loc (locations s') = [''A'', ''2024-05-01T10:00:00.000Z'']
         \<and> distinct (map id_loc (locations s')))"
proof -
  have d: "distinct (map id_loc (locations creating_state))"
    by (simp add: creating_state_def)
  have f: "fresh_ids session creating_state"
    by (simp add: session_def creating_state_def handler_defs jerash_def place_def)
  have "\<exists>s'. run session creating_state = Some s'
         \<and> map id_loc (locations s') = [''A'', ''2024-05-01T10:00:00.000Z'']"
    by (simp add: session_def creating_state_def handler_defs jerash_def place_def)
  then show ?thesis
  proof (elim exE conjE)
    fix s'
    assume r: "run session creating_state = Some s'"
      and l: "map id_loc (locations s') = [''A'', ''2024-05-01T10:00:00.000Z'']"
    from ids_remain_unique [OF d f r] have u: "distinct (map id_loc (locations s'))" .
    show ?thesis
      by (intro conjI exI [of _ s']) (rule d f r l u)+
  qed
qed

text \<open>
  C6. Round trip: for every well-formed collection (every record has a latitude and a
  longitude, finite numbers; the other fields are well-formed by their types), validating
  the parsed serialisation returns the collection, element for element and in the same
  order.
\<close>

theorem roundtrip_finite:
  assumes "list_all finite_coordinates L"
  shows "Option.bind (JSON_parse (JSON_stringify L)) validateLocationsData = Some L"
  using assms by (simp add: validate_parse_stringify)

theorem roundtrip_finite_witness:
  "list_all finite_coordinates [place ''A'', jerash]
   \<and> Option.bind (JSON_parse (JSON_stringify [place ''A'', jerash])) validateLocationsData
       = Some [place ''A'', jerash]"
proof -
  have f: "list_all finite_coordinates [place ''A'', jerash]"
    by (simp add: finite_coordinates_def place_def jerash_def)
  from roundtrip_finite [OF f] f show ?thesis by simp
qed

text \<open>
  C7. Delete removes every record whose id matches, which is the first and only one when
  ids are unique; and when the record open for editing has that id, the editing record,
  the selected coordinates and the selected country are cleared by the same call.
\<close>

theorem delete_removes_record:
  "locations (handleDeleteLocation i s) = filter (\<lambda>loc. id_loc loc \<noteq> i) (locations s)
   \<and> (distinct (map id_loc (locations s)) \<longrightarrow>
        locations (handleDeleteLocation i s)
          = remove_first (\<lambda>loc. id_loc loc = i) (locations s))
   \<and> (editingLocation s = Some editing \<and> id_loc editing = i \<longrightarrow>
        editingLocation (handleDeleteLocation i s) = None
        \<and> selectedCoords (handleDeleteLocation i s) = None
        \<and> selectedCountry (handleDeleteLocation i s) = None)"
proof (intro conjI impI)
  show "locations (handleDeleteLocation i s) = filter (\<lambda>loc. id_loc loc \<noteq> i) (locations s)"
    by simp
next
  assume "distinct (map id_loc (locations s))"
  then show "locations (handleDeleteLocation i s)
          = remove_first (\<lambda>loc. id_loc loc = i) (locations s)"
    by (simp add: filter_remove_first)
next
  assume e: "editingLocation s = Some editing \<and> id_loc editing = i"
  then have "handleDeleteLocation i s =
             (handleCancelEdit s)\<lparr>locations := filter (\<lambda>loc. id_loc loc \<noteq> i) (locations s),
               localStorage := Some (JSON_stringify (filter (\<lambda>loc. id_loc loc \<noteq> i) (locations s)))\<rparr>"
    by (simp add: handleDeleteLocation_def updateStoredLocations_def Let_def handleCancelEdit_def)
  then show "editingLocation (handleDeleteLocation i s) = None"
    and "selectedCoords (handleDeleteLocation i s) = None"
    and "selectedCountry (handleDeleteLocation i s) = None"
    by (simp_all add: handleCancelEdit_def)
qed

theorem delete_removes_record_witness:
  "distinct (map id_loc (locations editing_state))
   \<and> editingLocation editing_state = Some (place ''A'') \<and> id_loc (place ''A'') = ''A''
   \<and> selectedCoords editing_state \<noteq> None
   \<and> locations (handleDeleteLocation ''A'' editing_state) = [jerash]
   \<and> remove_first (\<lambda>loc. id_loc loc = ''A'') (locations editing_state) = [jerash]
   \<and> editingLocation (handleDeleteLocation ''A'' editing_state) = None
   \<and> selectedCoords (handleDeleteLocation ''A'' editing_state) = None
   \<and> selectedCountry (handleDeleteLocation ''A'' editing_state) = None"
proof -
  have d: "distinct (map id_loc (locations editing_state))"
    by (simp add: editing_state_def place_def jerash_def)
  have e: "editingLocation editing_state = Some (place ''A'') \<and> id_loc (place ''A'') = ''A''"
    by (simp add: editing_state_def place_def)
  have c: "selectedCoords editing_state \<noteq> None" by (simp add: editing_state_def)
  have r: "remove_first (\<lambda>loc. id_loc loc = ''A'') (locations editing_state) = [jerash]"
    by (simp add: editing_state_def place_def)
  note t = delete_removes_record [of "''A''" editing_state "place ''A''"]
  from t d r have 1: "locations (handleDeleteLocation ''A'' editing_state) = [jerash]" by simp
  from t e have 2: "editingLocation (handleDeleteLocation ''A'' editing_state) = None
           \<and> selectedCoords (handleDeleteLocation ''A'' editing_state) = None
           \<and> selectedCountry (handleDeleteLocation ''A'' editing_state) = None"
    by simp
  show ?thesis by (intro conjI) (rule d c r 1 e [THEN conjunct1] e [THEN conjunct2]
        2 [THEN conjunct1] 2 [THEN conjunct2, THEN conjunct1] 2 [THEN conjunct2, THEN conjunct2])+
qed

text \<open>
  C8. Update: with a record open for editing and a complete selection, every record
  whose id is that of the edited record is replaced by the merged copy, written out
  field by field: the id of the edited record, country and coordinates of the selection,
  title, description, image, questions and navigation flag of the form, video and audio
  of the form with the empty string turned into \<^verbatim>\<open>null\<close>. Every other record is unchanged,
  so an id that is not in the collection changes no record.
\<close>

theorem update_merges_by_id:
  assumes "editingLocation s = Some editing"
      and "selectedCoords s = Some coords"
      and "selectedCountry s = Some ctry"
      and "ctry \<noteq> []"
  shows "length (locations (handleSaveLocation formData now s)) = length (locations s)
       \<and> (\<forall>k < length (locations s).
            if id_loc (locations s ! k) = id_loc editing
            then locations (handleSaveLocation formData now s) ! k =
                   \<lparr> id_loc = id_loc editing,
                     title = form_title formData,
                     country = ctry,
                     description = form_description formData,
                     image_loc = form_image formData,
                     video = (if form_video formData = [] then None
                              else Some (form_video formData)),
                     audio = (if form_audio formData = [] then None
                              else Some (form_audio formData)),
                     coordinates = coords,
                     questions = Some (form_questions formData),
                     block_navigation = Some (form_block_navigation formData) \<rparr>
            else locations (handleSaveLocation formData now s) ! k = locations s ! k)
       \<and> (id_loc editing \<notin> set (map id_loc (locations s)) \<longrightarrow>
            locations (handleSaveLocation formData now s) = locations s)"
proof -
  let ?u = "\<lparr> id_loc = id_loc editing,
                     title = form_title formData,
                     country = ctry,
                     description = form_description formData,
                     image_loc = form_image formData,
                     video = (if form_video formData = [] then None
                              else Some (form_video formData)),
                     audio = (if form_audio formData = [] then None
                              else Some (form_audio formData)),
                     coordinates = coords,
                     questions = Some (form_questions formData),
                     block_navigation = Some (form_block_navigation formData) \<rparr>"
  have l: "locations (handleSaveLocation formData now s) =
      map (\<lambda>loc. if id_loc loc = id_loc editing then ?u else loc) (locations s)"
    using assms
    by (cases editing)
       (simp add: handleSaveLocation_def updateStoredLocations_def Let_def or_null_def)
  have "id_loc editing \<notin> set (map id_loc (locations s)) \<Longrightarrow>
        map (\<lambda>loc. if id_loc loc = id_loc editing then ?u else loc) (locations s) = locations s"
    by (rule map_idI) (force simp: image_iff)
  then show ?thesis unfolding l by simp
qed

theorem update_merges_by_id_witness:
  "editingLocation editing_state = Some (place ''A'')
   \<and> selectedCoords editing_state = Some (Fin 30.3, Fin 35.4)
   \<and> selectedCountry editing_state = Some ''Jordan''
   \<and> ''Jordan'' \<noteq> []
   \<and> locations editing_state = [place ''A'', jerash]
   \<and> length (locations (handleSaveLocation rich_form ''2024-05-02T08:30:00.000Z'' editing_state)) = 2
   \<and> locations (handleSaveLocation rich_form ''2024-05-02T08:30:00.000Z'' editing_state) ! 0
       = \<lparr> id_loc = ''A'', title = ''Petra by night'', country = ''Jordan'',
           description = ''<p>Candles</p>'', image_loc = ''https://example.org/p.png'',
           video = Some ''https://example.org/p.mp4'', audio = None,
           coordinates = (Fin 30.3, Fin 35.4), questions = Some [quiz],
           block_navigation = Some True \<rparr>
   \<and> locations (handleSaveLocation rich_form ''2024-05-02T08:30:00.000Z'' editing_state) ! 1 = jerash
   \<and> editingLocation stale_state = Some (place ''A'')
   \<and> id_loc (place ''A'') \<notin> set (map id_loc (locations stale_state))
   \<and> locations (handleSaveLocation rich_form ''2024-05-02T08:30:00.000Z'' stale_state)
       = locations stale_state"
proof -
  have e: "editingLocation editing_state = Some (place ''A'')"
    and c: "selectedCoords editing_state = Some (Fin 30.3, Fin 35.4)"
    and k: "selectedCountry editing_state = Some ''Jordan''"
    and l: "locations editing_state = [place ''A'', jerash]"
    by (simp_all add: editing_state_def)
  have n: "''Jordan'' \<noteq> []" by simp
  note t = update_merges_by_id [OF e c k n, of rich_form "''2024-05-02T08:30:00.000Z''"]
  from t l
  have 0: "length (locations (handleSaveLocation rich_form ''2024-05-02T08:30:00.000Z'' editing_state)) = 2"
    by simp
  from t [THEN conjunct2, THEN conjunct1, THEN spec, of 0] l
  have 1: "locations (handleSaveLocation rich_form ''2024-05-02T08:30:00.000Z'' editing_state) ! 0
       = \<lparr> id_loc = ''A'', title = ''Petra by night'', country = ''Jordan'',
           description = ''<p>Candles</p>'', image_loc = ''https://example.org/p.png'',
           video = Some ''https://example.org/p.mp4'', audio = None,
           coordinates = (Fin 30.3, Fin 35.4), questions = Some [quiz],
           block_navigation = Some True \<rparr>"
    by (simp add: place_def rich_form_def)
  from t [THEN conjunct2, THEN conjunct1, THEN spec, of 1] l
  have 2: "locations (handleSaveLocation rich_form ''2024-05-02T08:30:00.000Z'' editing_state) ! 1 = jerash"
    by (simp add: place_def jerash_def)
  have e': "editingLocation stale_state = Some (place ''A'')"
    and c': "selectedCoords stale_state = Some (Fin 30.3, Fin 35.4)"
    and k': "selectedCountry stale_state = Some ''Jordan''"
    by (simp_all add: stale_state_def)
  have m: "id_loc (place ''A'') \<notin> set (map id_loc (locations stale_state))"
    by (simp add: stale_state_def place_def jerash_def)
  from update_merges_by_id [OF e' c' k' n, of rich_form "''2024-05-02T08:30:00.000Z''"] m
  have 3: "locations (handleSaveLocation rich_form ''2024-05-02T08:30:00.000Z'' stale_state)
       = locations stale_state"
    by simp
  show ?thesis
    by (intro conjI) (rule e c k n l 0 1 2 e' m 3)+
qed

text \<open>
  C9. The \<^verbatim>\<open>video\<close> and \<^verbatim>\<open>audio\<close> fields are accepted exactly when they are \<^verbatim>\<open>null\<close> or a
  string. On an accepted object, setting either field to a value \<open>v\<close> (the entry
  \<open>(k, v)\<close> put in front of the property list) keeps it accepted if and only if \<open>v\<close> is
  \<^verbatim>\<open>null\<close> or a string; an element whose field is \<^verbatim>\<open>undefined\<close> (absent), a number, a
  boolean, an object or an array is rejected, and the whole input with it.
\<close>

theorem video_audio_null_or_string:
  assumes "k = ''video'' \<or> k = ''audio''"
  shows "(isLocation (JObj ps) \<longrightarrow>
            isLocation (JObj ((k, v) # ps)) = (v = JNull \<or> (\<exists>t. v = JStr t)))
       \<and> (x \<in> set elems
            \<and> (get x k = None \<or> (\<exists>n. get x k = Some (JNum n)) \<or> (\<exists>b. get x k = Some (JBool b))
                 \<or> (\<exists>fs. get x k = Some (JObj fs)) \<or> (\<exists>vs. get x k = Some (JArr vs))) \<longrightarrow>
            \<not> isLocation x \<and> validateLocationsData (JArr elems) = None)"
proof (intro conjI impI)
  assume "isLocation (JObj ps)"
  with assms show "isLocation (JObj ((k, v) # ps)) = (v = JNull \<or> (\<exists>t. v = JStr t))"
    by (elim disjE) (simp_all only: isLocation_with_video isLocation_with_audio null_or_string_Some)
next
  assume h: "x \<in> set elems
            \<and> (get x k = None \<or> (\<exists>n. get x k = Some (JNum n)) \<or> (\<exists>b. get x k = Some (JBool b))
                 \<or> (\<exists>fs. get x k = Some (JObj fs)) \<or> (\<exists>vs. get x k = Some (JArr vs)))"
  then have "\<not> null_or_string (get x k)" by (intro not_null_or_string) simp
  with assms show n: "\<not> isLocation x" using isLocation_media [of x] by blast
  from h n have "\<not> list_all isLocation elems" by (auto simp: list_all_iff)
  then show "validateLocationsData (JArr elems) = None"
    by (simp add: validateLocationsData_array)
qed

theorem video_audio_null_or_string_witness:
  "isLocation (JObj well_formed_properties)
   \<and> \<not> isLocation (JObj ((''video'', JNum (Fin 5)) # well_formed_properties))
   \<and> isLocation (JObj ((''audio'', JStr ''https://example.org/a.mp3'') # well_formed_properties))
   \<and> without_video \<in> set [JObj well_formed_properties, without_video]
   \<and> get without_video ''video'' = None
   \<and> \<not> isLocation without_video
   \<and> validateLocationsData (JArr [JObj well_formed_properties, without_video]) = None"
proof -
  have w: "isLocation (JObj well_formed_properties)"
    by (simp add: isLocation_def well_formed_properties_def item_def)
  have m: "without_video \<in> set [JObj well_formed_properties, without_video]" by simp
  have g: "get without_video ''video'' = None" by (simp add: without_video_def)
  have v: "''video'' = ''video'' \<or> ''video'' = ''audio''" by simp
  have u: "''audio'' = ''video'' \<or> ''audio'' = ''audio''" by simp
  from video_audio_null_or_string [OF v, of well_formed_properties "JNum (Fin 5)"] w
  have 1: "\<not> isLocation (JObj ((''video'', JNum (Fin 5)) # well_formed_properties))" by simp
  from video_audio_null_or_string [OF u, of well_formed_properties "JStr ''https://example.org/a.mp3''"] w
  have 2: "isLocation (JObj ((''audio'', JStr ''https://example.org/a.mp3'') # well_formed_properties))"
    by simp
  from video_audio_null_or_string [OF v, of _ _ without_video "[JObj well_formed_properties, without_video]"] m g
  have 3: "\<not> isLocation without_video
     \<and> validateLocationsData (JArr [JObj well_formed_properties, without_video]) = None"
    by blast
  from w m g 1 2 3 show ?thesis by blast
qed

text \<open>
  C10. Deleting an id that matches no record leaves the collection as it is and writes
  its serialisation to the store.
\<close>

theorem delete_missing_id_noop:
  assumes "i \<notin> set (map id_loc (locations s))"
  shows "locations (handleDeleteLocation i s) = locations s
       \<and> localStorage (handleDeleteLocation i s) = Some (JSON_stringify (locations s))"
proof -
  from assms have "filter (\<lambda>loc. id_loc loc \<noteq> i) (locations s) = locations s"
    by (auto simp: filter_id_conv)
  then show ?thesis by (simp add: storage_delete)
qed

theorem delete_missing_id_noop_witness:
  "''B'' \<notin> set (map id_loc (locations editing_state))
   \<and> locations (handleDeleteLocation ''B'' editing_state) = locations editing_state
   \<and> localStorage (handleDeleteLocation ''B'' editing_state)
       = Some (JSON_stringify [place ''A'', jerash])"
proof -
  have h: "''B'' \<notin> set (map id_loc (locations editing_state))"
    by (simp add: editing_state_def place_def jerash_def)
  have l: "locations editing_state = [place ''A'', jerash]" by (simp add: editing_state_def)
  from delete_missing_id_noop [OF h] h l show ?thesis by simp
qed

end
